theory Spec2Isabelle
  imports Complex_Main "HOL-Library.Log_Nat"
begin

unbundle bit_operations_syntax

section \<open>Conventions of the embedding\<close>

text \<open>
  The repository is a Go port of the Material colour utilities. Go's \<^verbatim>\<open>int\<close> is modelled
  as \<^typ>\<open>int\<close> (every value the code builds fits in 32 bits, so nothing wraps), with
  \<^verbatim>\<open>&\<close>, \<^verbatim>\<open>|\<close>, \<^verbatim>\<open><<\<close> and \<^verbatim>\<open>>>\<close> as \<open>AND\<close>, \<open>OR\<close>, \<open>push_bit\<close> and \<open>drop_bit\<close>.

  In package colorUtils a \<^verbatim>\<open>float64\<close> is modelled as the \<^typ>\<open>real\<close> it denotes and
  \<^verbatim>\<open>+ - * /\<close> as the exact operations: the arguments are finite, no operation there can
  leave the finite numbers, and rounding to 53 bits is left out. Two places say more:
  \<^item> the code of package hct divides and takes roots of values it does not check, so its
    numbers are values of a type with the infinities and NaN next to the finite reals;
  \<^item> \<^verbatim>\<open>SanitizeDegreesDouble\<close> is modelled on binary floating-point numbers with the rounding
    of its one addition written out, because its result at the upper end of the range is
    decided by that rounding.
  A Go panic (an index out of range, a write to a nil map) is the value \<open>None\<close>.
\<close>

section \<open>Package mathUtils\<close>

definition Lerp :: "real \<Rightarrow> real \<Rightarrow> real \<Rightarrow> real" where
  "Lerp start stop amount = (1 - amount) * start + amount * stop"

definition ClampInt :: "int \<Rightarrow> int \<Rightarrow> int \<Rightarrow> int" where
  "ClampInt mn mx input = (if input < mn then mn else if input > mx then mx else input)"

definition ClampDouble :: "real \<Rightarrow> real \<Rightarrow> real \<Rightarrow> real" where
  "ClampDouble mn mx input = (if input < mn then mn else if input > mx then mx else input)"

text \<open>\<^verbatim>\<open>MatrixMultiply\<close> indexes a row of three and a matrix of three rows of three; a shorter
  slice makes the Go code panic.\<close>

fun MatrixMultiply :: "real list \<Rightarrow> real list list \<Rightarrow> real list option" where
  "MatrixMultiply (r0 # r1 # r2 # rs)
     ((m00 # m01 # m02 # ms0) # (m10 # m11 # m12 # ms1) # (m20 # m21 # m22 # ms2) # ms) =
     Some [r0 * m00 + r1 * m01 + r2 * m02,
           r0 * m10 + r1 * m11 + r2 * m12,
           r0 * m20 + r1 * m21 + r2 * m22]"
| "MatrixMultiply row matrix = None"

text \<open>\<^verbatim>\<open>math.Round\<close> rounds to the nearest integer, halves away from zero; the result is
  kept as an integer, which is what \<^verbatim>\<open>int(math.Round(x))\<close> reads off.\<close>

definition math_Round :: "real \<Rightarrow> int" where
  "math_Round x = (if x < 0 then - \<lfloor>- x + 1 / 2\<rfloor> else \<lfloor>x + 1 / 2\<rfloor>)"

text \<open>\<^verbatim>\<open>math.Pow\<close> on a positive base, which is every call in package colorUtils.\<close>

definition math_Pow :: "real \<Rightarrow> real \<Rightarrow> real" where
  "math_Pow x y = x powr y"

section \<open>Package colorUtils\<close>

definition srgbToXyz :: "real list list" where
  "srgbToXyz = [[0.41233895, 0.35762064, 0.18051042],
                [0.2126, 0.7152, 0.0722],
                [0.01932141, 0.11916382, 0.95034478]]"

definition xyzToSrgb :: "real list list" where
  "xyzToSrgb = [[3.2413774792388685, - 1.5376652402851851, - 0.49885366846268053],
                [- 0.9691452513005321, 1.8758853451067872, 0.04156585616912061],
                [0.05562093689691305, - 0.20395524564742123, 1.0571799111220335]]"

definition whitePointD65 :: "real list" where
  "whitePointD65 = [95.047, 100.0, 108.883]"

definition ArgbFromRgb :: "int \<Rightarrow> int \<Rightarrow> int \<Rightarrow> int" where
  "ArgbFromRgb red green blue =
     push_bit 24 255 OR push_bit 16 (red AND 255) OR push_bit 8 (green AND 255) OR (blue AND 255)"


definition RedFromArgb :: "int \<Rightarrow> int" where
  "RedFromArgb argb = drop_bit 16 argb AND 255"

definition GreenFromArgb :: "int \<Rightarrow> int" where
  "GreenFromArgb argb = drop_bit 8 argb AND 255"

definition BlueFromArgb :: "int \<Rightarrow> int" where
  "BlueFromArgb argb = argb AND 255"


definition Linearized :: "int \<Rightarrow> real" where
  "Linearized rgbComponent =
     (let normalized = real_of_int rgbComponent / 255 in
      if normalized \<le> 0.040449936 then normalized / 12.92 * 100
      else math_Pow ((normalized + 0.055) / 1.055) 2.4 * 100)"

definition Delinearized :: "real \<Rightarrow> int" where
  "Delinearized rgbComponent =
     (let normalized = rgbComponent / 100;
          delinearized = (if normalized \<le> 0.0031308 then normalized * 12.92
                          else 1.055 * math_Pow normalized (1 / 2.4) - 0.055)
      in ClampInt 0 255 (math_Round (delinearized * 255)))"

text \<open>The matrices and the white point are package constants of three entries (or three rows
  of three), so the indices \<open>0..2\<close> into them are in range.\<close>

definition ArgbFromXyz :: "real \<Rightarrow> real \<Rightarrow> real \<Rightarrow> int" where
  "ArgbFromXyz x y z =
     (let matrix = xyzToSrgb;
          linearR = (matrix ! 0 ! 0) * x + (matrix ! 0 ! 1) * y + (matrix ! 0 ! 2) * z;
          linearG = (matrix ! 1 ! 0) * x + (matrix ! 1 ! 1) * y + (matrix ! 1 ! 2) * z;
          linearB = (matrix ! 2 ! 0) * x + (matrix ! 2 ! 1) * y + (matrix ! 2 ! 2) * z;
          r = Delinearized linearR;
          g = Delinearized linearG;
          b = Delinearized linearB
      in ArgbFromRgb r g b)"

definition XyzFromArgb :: "int \<Rightarrow> real list option" where
  "XyzFromArgb argb =
     (let r = Linearized (RedFromArgb argb);
          g = Linearized (GreenFromArgb argb);
          b = Linearized (BlueFromArgb argb);
          row = [r, g, b]
      in MatrixMultiply row srgbToXyz)"

definition ArgbFromLstar :: "real \<Rightarrow> int" where
  "ArgbFromLstar lstar =
     (let fy = (lstar + 16) / 116;
          fz = fy;
          fx = fy;
          kappa = 24389 / 27;
          epsilon = 216 / 24389;
          lExceedsEpsilonKappa = (lstar > 8);
          y = (if lExceedsEpsilonKappa then fy * fy * fy else lstar / kappa);
          cubeExceedEpsilon = (fy * fy * fy > epsilon);
          x = (if cubeExceedEpsilon then fx * fx * fx else lstar / kappa);
          z = (if cubeExceedEpsilon then fz * fz * fz else lstar / kappa);
          whitePoint = whitePointD65
      in ArgbFromXyz (x * (whitePoint ! 0)) (y * (whitePoint ! 1)) (z * (whitePoint ! 2)))"

definition LstarFromArgb :: "int \<Rightarrow> real option" where
  "LstarFromArgb argb =
     (case XyzFromArgb argb of
        Some (x0 # x1 # xs) \<Rightarrow>
          (let y = x1 / 100;
               e = 216 / 24389
           in if y \<le> e then Some (24389 / 27 * y)
              else (let yIntermediate = math_Pow y (1 / 3) in Some (116 * yIntermediate - 16)))
      | _ \<Rightarrow> None)"

definition YFromLstar :: "real \<Rightarrow> real" where
  "YFromLstar lstar =
     (let ke = 8 in
      if lstar > ke then math_Pow ((lstar + 16) / 116) 3 * 100
      else lstar / (24389 / 27) * 100)"


definition labInvf :: "real \<Rightarrow> real" where
  "labInvf ft =
     (let e = 216 / 24389;
          kappa = 24389 / 27;
          ft3 = ft * ft * ft
      in if ft3 > e then ft3 else (116 * ft - 16) / kappa)"


section \<open>Numbers of package hct: finite reals, infinities, NaN\<close>

text \<open>
  The CAM16 code divides by values it does not check and takes roots and logarithms of them,
  so a \<^verbatim>\<open>float64\<close> there is a finite real, an infinity or NaN. The operations below follow
  IEEE 754 and the special cases listed in the documentation of Go's package \<^verbatim>\<open>math\<close>.
  Not modelled: rounding, overflow of a finite result, and the sign of zero (a zero divisor
  is read as \<open>+0\<close>).
\<close>

datatype float64 = Fin real | PInf | NInf | NaN

fun is_finite :: "float64 \<Rightarrow> bool" where
  "is_finite (Fin a) = True"
| "is_finite x = False"

fun fneg :: "float64 \<Rightarrow> float64" where
  "fneg (Fin a) = Fin (- a)"
| "fneg PInf = NInf"
| "fneg NInf = PInf"
| "fneg NaN = NaN"

fun fadd :: "float64 \<Rightarrow> float64 \<Rightarrow> float64" where
  "fadd (Fin a) (Fin b) = Fin (a + b)"
| "fadd NaN y = NaN"
| "fadd x NaN = NaN"
| "fadd PInf NInf = NaN"
| "fadd NInf PInf = NaN"
| "fadd PInf y = PInf"
| "fadd NInf y = NInf"
| "fadd (Fin a) y = y"

definition fsub :: "float64 \<Rightarrow> float64 \<Rightarrow> float64" where
  "fsub x y = fadd x (fneg y)"

text \<open>The sign of an infinite product or quotient: \<open>of_sign True\<close> is \<open>+Inf\<close>.\<close>

definition of_sign :: "bool \<Rightarrow> float64" where
  "of_sign positive = (if positive then PInf else NInf)"

fun fmul :: "float64 \<Rightarrow> float64 \<Rightarrow> float64" where
  "fmul (Fin a) (Fin b) = Fin (a * b)"
| "fmul NaN y = NaN"
| "fmul x NaN = NaN"
| "fmul (Fin a) PInf = (if a = 0 then NaN else of_sign (0 < a))"
| "fmul (Fin a) NInf = (if a = 0 then NaN else of_sign (a < 0))"
| "fmul PInf (Fin b) = (if b = 0 then NaN else of_sign (0 < b))"
| "fmul NInf (Fin b) = (if b = 0 then NaN else of_sign (b < 0))"
| "fmul PInf PInf = PInf"
| "fmul PInf NInf = NInf"
| "fmul NInf PInf = NInf"
| "fmul NInf NInf = PInf"

fun fdiv :: "float64 \<Rightarrow> float64 \<Rightarrow> float64" where
  "fdiv (Fin a) (Fin b) =
     (if b \<noteq> 0 then Fin (a / b) else if a = 0 then NaN else of_sign (0 < a))"
| "fdiv NaN y = NaN"
| "fdiv x NaN = NaN"
| "fdiv (Fin a) PInf = Fin 0"
| "fdiv (Fin a) NInf = Fin 0"
| "fdiv PInf (Fin b) = of_sign (0 \<le> b)"
| "fdiv NInf (Fin b) = of_sign (b < 0)"
| "fdiv PInf y = NaN"
| "fdiv NInf y = NaN"

fun flt :: "float64 \<Rightarrow> float64 \<Rightarrow> bool" where
  "flt (Fin a) (Fin b) = (a < b)"
| "flt NaN y = False"
| "flt x NaN = False"
| "flt PInf y = False"
| "flt x PInf = True"
| "flt NInf NInf = False"
| "flt NInf y = True"
| "flt (Fin a) NInf = False"

text \<open>\<^verbatim>\<open>==\<close> and \<^verbatim>\<open>!=\<close>: NaN is equal to nothing, itself included.\<close>

definition feq :: "float64 \<Rightarrow> float64 \<Rightarrow> bool" where
  "feq x y = (x \<noteq> NaN \<and> x = y)"

definition fle :: "float64 \<Rightarrow> float64 \<Rightarrow> bool" where
  "fle x y = (flt x y \<or> feq x y)"

fun math_Abs :: "float64 \<Rightarrow> float64" where
  "math_Abs (Fin a) = Fin \<bar>a\<bar>"
| "math_Abs PInf = PInf"
| "math_Abs NInf = PInf"
| "math_Abs NaN = NaN"

fun math_Sqrt :: "float64 \<Rightarrow> float64" where
  "math_Sqrt (Fin a) = (if a < 0 then NaN else Fin (sqrt a))"
| "math_Sqrt PInf = PInf"
| "math_Sqrt NInf = NaN"
| "math_Sqrt NaN = NaN"

fun math_Cos :: "float64 \<Rightarrow> float64" where
  "math_Cos (Fin a) = Fin (cos a)"
| "math_Cos x = NaN"

fun math_Sin :: "float64 \<Rightarrow> float64" where
  "math_Sin (Fin a) = Fin (sin a)"
| "math_Sin x = NaN"

fun math_Log1p :: "float64 \<Rightarrow> float64" where
  "math_Log1p (Fin a) = (if a < - 1 then NaN else if a = - 1 then NInf else Fin (ln (1 + a)))"
| "math_Log1p PInf = PInf"
| "math_Log1p x = NaN"

fun math_Hypot :: "float64 \<Rightarrow> float64 \<Rightarrow> float64" where
  "math_Hypot (Fin a) (Fin b) = Fin (sqrt (a * a + b * b))"
| "math_Hypot PInf y = PInf"
| "math_Hypot NInf y = PInf"
| "math_Hypot x PInf = PInf"
| "math_Hypot x NInf = PInf"
| "math_Hypot x y = NaN"

fun math_Atan2 :: "float64 \<Rightarrow> float64 \<Rightarrow> float64" where
  "math_Atan2 (Fin y) (Fin x) =
     (if 0 < x then Fin (arctan (y / x))
      else if x < 0 then (if 0 \<le> y then Fin (arctan (y / x) + pi) else Fin (arctan (y / x) - pi))
      else if 0 < y then Fin (pi / 2) else if y < 0 then Fin (- pi / 2) else Fin 0)"
| "math_Atan2 NaN x = NaN"
| "math_Atan2 y NaN = NaN"
| "math_Atan2 PInf PInf = Fin (pi / 4)"
| "math_Atan2 NInf PInf = Fin (- pi / 4)"
| "math_Atan2 PInf NInf = Fin (3 * pi / 4)"
| "math_Atan2 NInf NInf = Fin (- 3 * pi / 4)"
| "math_Atan2 (Fin y) PInf = Fin 0"
| "math_Atan2 (Fin y) NInf = (if y < 0 then Fin (- pi) else Fin pi)"
| "math_Atan2 PInf (Fin x) = Fin (pi / 2)"
| "math_Atan2 NInf (Fin x) = Fin (- pi / 2)"

text \<open>\<^verbatim>\<open>math.Pow\<close> with its special cases. \<open>is_odd_integer y\<close> says that \<open>y\<close> is an odd whole
  number, and a negative finite base has a power only for a whole exponent.\<close>

definition is_integer :: "real \<Rightarrow> bool" where
  "is_integer y = (of_int \<lfloor>y\<rfloor> = y)"

definition is_odd_integer :: "real \<Rightarrow> bool" where
  "is_odd_integer y = (is_integer y \<and> odd \<lfloor>y\<rfloor>)"

definition pow_zero_base :: "float64 \<Rightarrow> float64" where
  "pow_zero_base y =
     (case y of
        Fin b \<Rightarrow> (if b < 0 then PInf else Fin 0)
      | PInf \<Rightarrow> Fin 0
      | NInf \<Rightarrow> PInf
      | NaN \<Rightarrow> NaN)"

definition pow_infinite_exponent :: "real \<Rightarrow> bool \<Rightarrow> float64" where
  "pow_infinite_exponent a positive =
     (if \<bar>a\<bar> = 1 then Fin 1
      else if (1 < \<bar>a\<bar>) = positive then PInf else Fin 0)"

fun fpow :: "float64 \<Rightarrow> float64 \<Rightarrow> float64" where
  "fpow x (Fin b) =
     (if b = 0 then Fin 1
      else case x of
        Fin a \<Rightarrow>
          (if a = 1 then Fin 1
           else if a = 0 then pow_zero_base (Fin b)
           else if 0 < a then Fin (a powr b)
           else if is_integer b then Fin (a powi \<lfloor>b\<rfloor>)
           else NaN)
      | PInf \<Rightarrow> (if 0 < b then PInf else Fin 0)
      | NInf \<Rightarrow>
          (if 0 < b then (if is_odd_integer b then NInf else PInf) else Fin 0)
      | NaN \<Rightarrow> NaN)"
| "fpow x NaN = (if x = Fin 1 then Fin 1 else NaN)"
| "fpow x PInf =
     (case x of
        Fin a \<Rightarrow> (if a = 0 then pow_zero_base PInf else pow_infinite_exponent a True)
      | PInf \<Rightarrow> PInf
      | NInf \<Rightarrow> PInf
      | NaN \<Rightarrow> NaN)"
| "fpow x NInf =
     (case x of
        Fin a \<Rightarrow> (if a = 0 then pow_zero_base NInf else pow_infinite_exponent a False)
      | PInf \<Rightarrow> Fin 0
      | NInf \<Rightarrow> Fin 0
      | NaN \<Rightarrow> NaN)"

text \<open>\<^verbatim>\<open>mathUtils.Signum\<close>: NaN is neither below zero nor equal to it, so it maps to \<open>1\<close>.\<close>

definition Signum :: "float64 \<Rightarrow> float64" where
  "Signum num = (if flt num (Fin 0) then Fin (- 1) else if feq num (Fin 0) then Fin 0 else Fin 1)"

definition ToDegrees :: "float64 \<Rightarrow> float64" where
  "ToDegrees radians = fdiv (fmul radians (Fin 180)) (Fin pi)"

definition ToRadians :: "float64 \<Rightarrow> float64" where
  "ToRadians degrees = fdiv (fmul degrees (Fin pi)) (Fin 180)"

fun math_Max :: "float64 \<Rightarrow> float64 \<Rightarrow> float64" where
  "math_Max (Fin a) (Fin b) = Fin (max a b)"
| "math_Max PInf y = PInf"
| "math_Max x PInf = PInf"
| "math_Max NaN y = NaN"
| "math_Max x NaN = NaN"
| "math_Max NInf y = y"
| "math_Max x NInf = x"

section \<open>Package hct: viewing conditions\<close>

text \<open>The fields of the Go structs carry a prefix here, since a record field is a constant of
  the theory: \<open>vc_\<close> for \<^verbatim>\<open>ViewingConditions\<close>, \<open>cam_\<close> for \<^verbatim>\<open>Cam16\<close>, \<open>hct_\<close> for \<^verbatim>\<open>Hct\<close>
  and \<open>tp_\<close> for \<^verbatim>\<open>TonalPalette\<close>.\<close>

record ViewingConditions =
  vc_Aw :: float64
  vc_Nbb :: float64
  vc_Ncb :: float64
  vc_C :: float64
  vc_Nc :: float64
  vc_N :: float64
  vc_RgbD :: "float64 list"
  vc_Fl :: float64
  vc_FlRoot :: float64
  vc_Z :: float64

definition XYZToCam16RGB :: "real list list" where
  "XYZToCam16RGB = [[0.401288, 0.650173, - 0.051461],
                    [- 0.250268, 1.204414, 0.045854],
                    [- 0.002079, 0.048952, 0.953127]]"

definition CAM16RGBToXYZ :: "real list list" where
  "CAM16RGBToXYZ = [[1.8620678, - 1.0112547, 0.14918678],
                    [0.38752654, 0.62144744, - 0.00897398],
                    [- 0.01584150, - 0.03412294, 1.0499644]]"

text \<open>
  \<^verbatim>\<open>MakeViewingConditions\<close> is modelled for finite arguments. Its first steps cannot leave
  the finite reals and are computed there; from the first division on, the values are
  \<^typ>\<open>float64\<close>. A white point with fewer than three coordinates makes the Go code panic.
\<close>

definition MakeViewingConditions ::
  "real list \<Rightarrow> real \<Rightarrow> real \<Rightarrow> real \<Rightarrow> bool \<Rightarrow> ViewingConditions option" where
  "MakeViewingConditions whitePoint adaptingLuminance backgroundLstar0 surround
       discountingIlluminant =
     (case whitePoint of
        xyz0 # xyz1 # xyz2 # rest \<Rightarrow>
     (let backgroundLstar = max 0.1 backgroundLstar0;
          matrix = XYZToCam16RGB;
          rW = (xyz0 * (matrix ! 0 ! 0)) + (xyz1 * (matrix ! 0 ! 1)) + (xyz2 * (matrix ! 0 ! 2));
          gW = (xyz0 * (matrix ! 1 ! 0)) + (xyz1 * (matrix ! 1 ! 1)) + (xyz2 * (matrix ! 1 ! 2));
          bW = (xyz0 * (matrix ! 2 ! 0)) + (xyz1 * (matrix ! 2 ! 1)) + (xyz2 * (matrix ! 2 ! 2));
          f = 0.8 + (surround / 10);
          c = (if f \<ge> 0.9 then Lerp 0.59 0.69 ((f - 0.9) * 10)
               else Lerp 0.525 0.59 ((f - 0.8) * 10));
          d = (if discountingIlluminant then 1
               else min (max 0 (f * (1 - ((1 / 3.6) * exp ((- adaptingLuminance - 42) / 92))))) 1);
          nc = f;
          rgbD = [fsub (fadd (fmul (Fin d) (fdiv (Fin 100) (Fin rW))) (Fin 1)) (Fin d),
                  fsub (fadd (fmul (Fin d) (fdiv (Fin 100) (Fin gW))) (Fin 1)) (Fin d),
                  fsub (fadd (fmul (Fin d) (fdiv (Fin 100) (Fin bW))) (Fin 1)) (Fin d)];
          k = fdiv (Fin 1) (Fin (5 * adaptingLuminance + 1));
          k4 = fmul (fmul (fmul k k) k) k;
          k4F = fsub (Fin 1) k4;
          fl = fadd (fmul k4 (Fin adaptingLuminance))
                    (fmul (fmul (fmul (Fin 0.1) k4F) k4F) (Fin (root 3 (5 * adaptingLuminance))));
          n = fdiv (Fin (YFromLstar backgroundLstar)) (Fin xyz1);
          z = fadd (Fin 1.48) (math_Sqrt n);
          nbb = fdiv (Fin 0.725) (fpow n (Fin 0.2));
          ncb = nbb;
          rgbAFactors =
            [fpow (fdiv (fmul (fmul fl (rgbD ! 0)) (Fin rW)) (Fin 100)) (Fin 0.42),
             fpow (fdiv (fmul (fmul fl (rgbD ! 1)) (Fin gW)) (Fin 100)) (Fin 0.42),
             fpow (fdiv (fmul (fmul fl (rgbD ! 2)) (Fin bW)) (Fin 100)) (Fin 0.42)];
          rgbA =
            [fdiv (fmul (Fin 400) (rgbAFactors ! 0)) (fadd (rgbAFactors ! 0) (Fin 27.13)),
             fdiv (fmul (Fin 400) (rgbAFactors ! 1)) (fadd (rgbAFactors ! 1) (Fin 27.13)),
             fdiv (fmul (Fin 400) (rgbAFactors ! 2)) (fadd (rgbAFactors ! 2) (Fin 27.13))];
          aw = fmul (fadd (fadd (fmul (Fin 2) (rgbA ! 0)) (rgbA ! 1)) (fmul (Fin 0.05) (rgbA ! 2))) nbb
      in Some \<lparr>vc_Aw = aw, vc_Nbb = nbb, vc_Ncb = ncb, vc_C = Fin c, vc_Nc = Fin nc, vc_N = n,
               vc_RgbD = rgbD, vc_Fl = fl, vc_FlRoot = fpow fl (Fin 0.25), vc_Z = z\<rparr>)
      | _ \<Rightarrow> None)"

definition DefaultViewingConditionsWithBackgroundLstar :: "real \<Rightarrow> ViewingConditions option" where
  "DefaultViewingConditionsWithBackgroundLstar backgroundLstar =
     MakeViewingConditions whitePointD65 ((200 / pi * YFromLstar 50) / 100) backgroundLstar 2 False"

text \<open>The package variable; \<open>None\<close> would be a panic while the package is initialised.\<close>

definition DefaultViewingConditions :: "ViewingConditions option" where
  "DefaultViewingConditions = DefaultViewingConditionsWithBackgroundLstar 50"

section \<open>Package hct: CAM16\<close>

record Cam16 =
  cam_hue :: float64
  cam_chroma :: float64
  cam_j :: float64
  cam_q :: float64
  cam_m :: float64
  cam_s :: float64
  cam_jstar :: float64
  cam_astar :: float64
  cam_bstar :: float64

text \<open>The forward transform reads \<^verbatim>\<open>GetRgbD()[0..2]\<close>: fewer than three entries is a panic.\<close>

definition Cam16FromXyzInViewingConditions ::
  "float64 \<Rightarrow> float64 \<Rightarrow> float64 \<Rightarrow> ViewingConditions \<Rightarrow> Cam16 option" where
  "Cam16FromXyzInViewingConditions x y z viewingConditions =
     (case vc_RgbD viewingConditions of
        d0 # d1 # d2 # ds \<Rightarrow>
          (let matrix = XYZToCam16RGB;
               rT = fadd (fadd (fmul x (Fin (matrix ! 0 ! 0))) (fmul y (Fin (matrix ! 0 ! 1))))
                         (fmul z (Fin (matrix ! 0 ! 2)));
               gT = fadd (fadd (fmul x (Fin (matrix ! 1 ! 0))) (fmul y (Fin (matrix ! 1 ! 1))))
                         (fmul z (Fin (matrix ! 1 ! 2)));
               bT = fadd (fadd (fmul x (Fin (matrix ! 2 ! 0))) (fmul y (Fin (matrix ! 2 ! 1))))
                         (fmul z (Fin (matrix ! 2 ! 2)));
               rD = fmul d0 rT;
               gD = fmul d1 gT;
               bD = fmul d2 bT;
               rAF = fpow (fdiv (fmul (vc_Fl viewingConditions) (math_Abs rD)) (Fin 100)) (Fin 0.42);
               gAF = fpow (fdiv (fmul (vc_Fl viewingConditions) (math_Abs gD)) (Fin 100)) (Fin 0.42);
               bAF = fpow (fdiv (fmul (vc_Fl viewingConditions) (math_Abs bD)) (Fin 100)) (Fin 0.42);
               rA = fdiv (fmul (fmul (Signum rD) (Fin 400)) rAF) (fadd rAF (Fin 27.13));
               gA = fdiv (fmul (fmul (Signum gD) (Fin 400)) gAF) (fadd gAF (Fin 27.13));
               bA = fdiv (fmul (fmul (Signum bD) (Fin 400)) bAF) (fadd bAF (Fin 27.13));
               a = fdiv (fadd (fsub (fmul (Fin 11) rA) (fmul (Fin 12) gA)) bA) (Fin 11);
               b = fdiv (fsub (fadd rA gA) (fmul (Fin 2) bA)) (Fin 9);
               u = fdiv (fadd (fadd (fmul (Fin 20) rA) (fmul (Fin 20) gA)) (fmul (Fin 21) bA)) (Fin 20);
               p2 = fdiv (fadd (fadd (fmul (Fin 40) rA) (fmul (Fin 20) gA)) bA) (Fin 20);
               atan2 = math_Atan2 b a;
               atanDegrees = ToDegrees atan2;
               hue = (if flt atanDegrees (Fin 0) then fadd atanDegrees (Fin 360)
                      else if fle (Fin 360) atanDegrees then fsub atanDegrees (Fin 360)
                      else atanDegrees);
               hueRadians = ToRadians hue;
               ac = fmul p2 (vc_Nbb viewingConditions);
               j = fmul (Fin 100)
                     (fpow (fdiv ac (vc_Aw viewingConditions))
                           (fmul (vc_C viewingConditions) (vc_Z viewingConditions)));
               q = fmul (fmul (fmul (fdiv (Fin 4) (vc_C viewingConditions))
                                    (math_Sqrt (fdiv j (Fin 100))))
                              (fadd (vc_Aw viewingConditions) (Fin 4)))
                        (vc_FlRoot viewingConditions);
               huePrime = (if flt hue (Fin 20.14) then fadd hue (Fin 360) else hue);
               eHue = fmul (Fin 0.25)
                        (fadd (math_Cos (fadd (ToRadians huePrime) (Fin 2))) (Fin 3.8));
               p1 = fmul (fmul (fmul (Fin (50000 / 13)) eHue) (vc_Nc viewingConditions))
                         (vc_Ncb viewingConditions);
               t = fdiv (fmul p1 (math_Hypot a b)) (fadd u (Fin 0.305));
               alpha = fmul (fpow (fsub (Fin 1.64) (fpow (Fin 0.29) (vc_N viewingConditions)))
                                  (Fin 0.73))
                            (fpow t (Fin 0.9));
               c = fmul alpha (math_Sqrt (fdiv j (Fin 100)));
               m = fmul c (vc_FlRoot viewingConditions);
               s = fmul (Fin 50)
                     (math_Sqrt (fdiv (fmul alpha (vc_C viewingConditions))
                                      (fadd (vc_Aw viewingConditions) (Fin 4))));
               jstar = fdiv (fmul (Fin (1 + 100 * 0.007)) j) (fadd (Fin 1) (fmul (Fin 0.007) j));
               mstar = fmul (Fin (1 / 0.0228)) (math_Log1p (fmul (Fin 0.0228) m));
               astar = fmul mstar (math_Cos hueRadians);
               bstar = fmul mstar (math_Sin hueRadians)
           in Some \<lparr>cam_hue = hue, cam_chroma = c, cam_j = j, cam_q = q, cam_m = m, cam_s = s,
                    cam_jstar = jstar, cam_astar = astar, cam_bstar = bstar\<rparr>)
      | _ \<Rightarrow> None)"

definition Cam16FromIntInViewingConditions :: "int \<Rightarrow> ViewingConditions \<Rightarrow> Cam16 option" where
  "Cam16FromIntInViewingConditions argb viewingConditions =
     (let red = drop_bit 16 (argb AND 0x00ff0000);
          green = drop_bit 8 (argb AND 0x0000ff00);
          blue = argb AND 0x000000ff;
          redL = Linearized red;
          greenL = Linearized green;
          blueL = Linearized blue;
          x = 0.41233895 * redL + 0.35762064 * greenL + 0.18051042 * blueL;
          y = 0.2126 * redL + 0.7152 * greenL + 0.0722 * blueL;
          z = 0.01932141 * redL + 0.11916382 * greenL + 0.95034478 * blueL
      in Cam16FromXyzInViewingConditions (Fin x) (Fin y) (Fin z) viewingConditions)"

definition Cam16FromInt :: "int \<Rightarrow> Cam16 option" where
  "Cam16FromInt argb =
     (case DefaultViewingConditions of
        None \<Rightarrow> None
      | Some vc \<Rightarrow> Cam16FromIntInViewingConditions argb vc)"

definition cam16FromJchInViewingConditions ::
  "float64 \<Rightarrow> float64 \<Rightarrow> float64 \<Rightarrow> ViewingConditions \<Rightarrow> Cam16" where
  "cam16FromJchInViewingConditions j c h viewingConditions =
     (let q = fmul (fmul (fmul (fdiv (Fin 4) (vc_C viewingConditions))
                               (math_Sqrt (fdiv j (Fin 100))))
                         (fadd (vc_Aw viewingConditions) (Fin 4)))
                   (math_Sqrt (vc_Fl viewingConditions));
          m = fmul c (math_Sqrt (vc_Fl viewingConditions));
          alpha = fdiv c (math_Sqrt (fdiv j (Fin 100)));
          s = fmul (Fin 50)
                (math_Sqrt (fdiv (fmul alpha (vc_C viewingConditions))
                                 (fadd (vc_Aw viewingConditions) (Fin 4))));
          hueRadians = fdiv (fmul (Fin pi) h) (Fin 180);
          jstar = fdiv (fmul (Fin (1 + 100 * 0.007)) j) (fadd (Fin 1) (fmul (Fin 0.007) j));
          mstar = fmul (Fin (1 / 0.0228)) (math_Log1p (fmul (Fin 0.0228) m));
          astar = fmul mstar (math_Cos hueRadians);
          bstar = fmul mstar (math_Sin hueRadians)
      in \<lparr>cam_hue = h, cam_chroma = c, cam_j = j, cam_q = q, cam_m = m, cam_s = s,
          cam_jstar = jstar, cam_astar = astar, cam_bstar = bstar\<rparr>)"

definition Cam16FromJch :: "float64 \<Rightarrow> float64 \<Rightarrow> float64 \<Rightarrow> Cam16 option" where
  "Cam16FromJch j c h =
     (case DefaultViewingConditions of
        None \<Rightarrow> None
      | Some vc \<Rightarrow> Some (cam16FromJchInViewingConditions j c h vc))"

text \<open>The first statement of the inverse transform \<^verbatim>\<open>XyzInViewingConditions\<close>, which guards
  the same quotient.\<close>

definition XyzInViewingConditions_alpha :: "Cam16 \<Rightarrow> float64" where
  "XyzInViewingConditions_alpha c =
     (if \<not> feq (cam_chroma c) (Fin 0) \<and> \<not> feq (cam_j c) (Fin 0)
      then fdiv (cam_chroma c) (math_Sqrt (fdiv (cam_j c) (Fin 100)))
      else Fin 0)"

definition XyzInViewingConditions ::
  "Cam16 \<Rightarrow> ViewingConditions \<Rightarrow> float64 list option \<Rightarrow> float64 list option" where
  "XyzInViewingConditions c viewingConditions returnArray =
     (case vc_RgbD viewingConditions of
        d0 # d1 # d2 # ds \<Rightarrow>
          (let alpha = XyzInViewingConditions_alpha c;
               t = fpow (fdiv alpha
                           (fpow (fsub (Fin 1.64) (fpow (Fin 0.29) (vc_N viewingConditions)))
                                 (Fin 0.73)))
                        (Fin (1 / 0.9));
               hRad = fdiv (fmul (Fin pi) (cam_hue c)) (Fin 180);
               eHue = fmul (Fin 0.25) (fadd (math_Cos (fadd hRad (Fin 2))) (Fin 3.8));
               ac = fmul (vc_Aw viewingConditions)
                      (fpow (fdiv (cam_j c) (Fin 100))
                            (fdiv (Fin 1) (fmul (vc_C viewingConditions) (vc_Z viewingConditions))));
               p1 = fmul (fmul (fmul eHue (Fin (50000 / 13))) (vc_Nc viewingConditions))
                         (vc_Ncb viewingConditions);
               p2 = fdiv ac (vc_Nbb viewingConditions);
               hSin = math_Sin hRad;
               hCos = math_Cos hRad;
               gamma = fdiv (fmul (fmul (Fin 23) (fadd p2 (Fin 0.305))) t)
                         (fadd (fadd (fmul (Fin 23) p1) (fmul (fmul (Fin 11) t) hCos))
                               (fmul (fmul (Fin 108) t) hSin));
               a = fmul gamma hCos;
               b = fmul gamma hSin;
               rA = fdiv (fadd (fadd (fmul (Fin 460) p2) (fmul (Fin 451) a)) (fmul (Fin 288) b))
                         (Fin 1403);
               gA = fdiv (fsub (fsub (fmul (Fin 460) p2) (fmul (Fin 891) a)) (fmul (Fin 261) b))
                         (Fin 1403);
               bA = fdiv (fsub (fsub (fmul (Fin 460) p2) (fmul (Fin 220) a)) (fmul (Fin 6300) b))
                         (Fin 1403);
               rCBase = math_Max (Fin 0)
                          (fdiv (fmul (Fin 27.13) (math_Abs rA)) (fsub (Fin 400) (math_Abs rA)));
               rC = fmul (fmul (Signum rA) (fdiv (Fin 100) (vc_Fl viewingConditions)))
                         (fpow rCBase (Fin (1 / 0.42)));
               gCBase = math_Max (Fin 0)
                          (fdiv (fmul (Fin 27.13) (math_Abs gA)) (fsub (Fin 400) (math_Abs gA)));
               gC = fmul (fmul (Signum gA) (fdiv (Fin 100) (vc_Fl viewingConditions)))
                         (fpow gCBase (Fin (1 / 0.42)));
               bCBase = math_Max (Fin 0)
                          (fdiv (fmul (Fin 27.13) (math_Abs bA)) (fsub (Fin 400) (math_Abs bA)));
               bC = fmul (fmul (Signum bA) (fdiv (Fin 100) (vc_Fl viewingConditions)))
                         (fpow bCBase (Fin (1 / 0.42)));
               rF = fdiv rC d0;
               gF = fdiv gC d1;
               bF = fdiv bC d2;
               matrix = CAM16RGBToXYZ;
               x = fadd (fadd (fmul rF (Fin (matrix ! 0 ! 0))) (fmul gF (Fin (matrix ! 0 ! 1))))
                        (fmul bF (Fin (matrix ! 0 ! 2)));
               y = fadd (fadd (fmul rF (Fin (matrix ! 1 ! 0))) (fmul gF (Fin (matrix ! 1 ! 1))))
                        (fmul bF (Fin (matrix ! 1 ! 2)));
               z = fadd (fadd (fmul rF (Fin (matrix ! 2 ! 0))) (fmul gF (Fin (matrix ! 2 ! 1))))
                        (fmul bF (Fin (matrix ! 2 ! 2)))
           in case returnArray of
                None \<Rightarrow> Some [x, y, z]
              | Some arr \<Rightarrow>
                  (if length arr < 3 then None else Some (arr[0 := x, 1 := y, 2 := z])))
      | _ \<Rightarrow> None)"

section \<open>Package hct: the HCT value\<close>

record Hct =
  hct_hue :: float64
  hct_chroma :: float64
  hct_tone :: float64
  hct_argb :: int

text \<open>
  The file that defines \<^verbatim>\<open>solveToInt\<close> is not among the sources, so the functions that call
  it take the solver as their first argument.
\<close>

type_synonym solver = "float64 \<Rightarrow> float64 \<Rightarrow> float64 \<Rightarrow> int"

definition NewHct :: "solver \<Rightarrow> float64 \<Rightarrow> float64 \<Rightarrow> float64 \<Rightarrow> Hct" where
  "NewHct solveToInt hue chroma tone =
     (let argb = solveToInt hue chroma tone
      in \<lparr>hct_hue = hue, hct_chroma = chroma, hct_tone = tone, hct_argb = argb\<rparr>)"

definition setInternalState :: "Hct \<Rightarrow> int \<Rightarrow> Hct option" where
  "setInternalState h argb =
     (case Cam16FromInt argb of
        None \<Rightarrow> None
      | Some cam \<Rightarrow>
          (case LstarFromArgb argb of
             None \<Rightarrow> None
           | Some lstar \<Rightarrow>
               Some (h\<lparr>hct_hue := cam_hue cam, hct_chroma := cam_chroma cam,
                       hct_tone := Fin lstar, hct_argb := argb\<rparr>)))"

definition NewHctFromInt :: "int \<Rightarrow> Hct option" where
  "NewHctFromInt argb =
     setInternalState \<lparr>hct_hue = Fin 0, hct_chroma = Fin 0, hct_tone = Fin 0, hct_argb = 0\<rparr> argb"

definition GetHue :: "Hct \<Rightarrow> float64" where
  "GetHue h = hct_hue h"

definition GetChroma :: "Hct \<Rightarrow> float64" where
  "GetChroma h = hct_chroma h"

definition GetTone :: "Hct \<Rightarrow> float64" where
  "GetTone h = hct_tone h"

definition ToInt :: "Hct \<Rightarrow> int" where
  "ToInt h = hct_argb h"

definition SetHue :: "solver \<Rightarrow> Hct \<Rightarrow> float64 \<Rightarrow> Hct option" where
  "SetHue solveToInt h newHue = setInternalState h (solveToInt newHue (hct_chroma h) (hct_tone h))"

definition SetChroma :: "solver \<Rightarrow> Hct \<Rightarrow> float64 \<Rightarrow> Hct option" where
  "SetChroma solveToInt h newChroma =
     setInternalState h (solveToInt (hct_hue h) newChroma (hct_tone h))"

definition SetTone :: "solver \<Rightarrow> Hct \<Rightarrow> float64 \<Rightarrow> Hct option" where
  "SetTone solveToInt h newTone =
     setInternalState h (solveToInt (hct_hue h) (hct_chroma h) newTone)"

section \<open>Package palettes: the tonal palette\<close>

text \<open>
  The cache is a Go map. A palette made by a constructor holds an allocated map; the zero
  value of the struct holds the nil map, which reads as empty and panics when written.
\<close>

record TonalPalette =
  tp_cache :: "(int \<rightharpoonup> int) option"
  tp_keyColor :: Hct
  tp_hue :: float64
  tp_chroma :: float64

text \<open>\<^verbatim>\<open>math.Round\<close> on a \<^typ>\<open>float64\<close>: infinities and NaN are returned as they are.\<close>

fun math_Round_float :: "float64 \<Rightarrow> float64" where
  "math_Round_float (Fin a) = Fin (of_int (math_Round a))"
| "math_Round_float x = x"

text \<open>
  The loop of \<^verbatim>\<open>createKeyColor\<close>: \<open>delta\<close> runs over \<open>1.0, 2.0, \<dots>\<close> while it is below \<open>50.0\<close>;
  the two other arguments are the loop's variables \<^verbatim>\<open>smallestDeltaHct\<close> and \<^verbatim>\<open>smallestDelta\<close>.
\<close>

function createKeyColor_loop ::
  "solver \<Rightarrow> float64 \<Rightarrow> float64 \<Rightarrow> real \<Rightarrow> real \<Rightarrow> Hct \<Rightarrow> float64 \<Rightarrow> Hct" where
  "createKeyColor_loop solveToInt hue chroma startTone delta smallestDeltaHct smallestDelta =
     (if delta < 50 then
        (if feq (math_Round_float chroma) (math_Round_float (GetChroma smallestDeltaHct))
         then smallestDeltaHct
         else
           (let hctAdd = NewHct solveToInt hue chroma (Fin (startTone + delta));
                hctAddDelta = math_Abs (fsub (GetChroma hctAdd) chroma);
                smallestDelta1 = (if flt hctAddDelta smallestDelta then hctAddDelta else smallestDelta);
                smallestDeltaHct1 = (if flt hctAddDelta smallestDelta then hctAdd else smallestDeltaHct);
                hctSubtract = NewHct solveToInt hue chroma (Fin (startTone - delta));
                hctSubtractDelta = math_Abs (fsub (GetChroma hctSubtract) chroma);
                smallestDelta2 =
                  (if flt hctSubtractDelta smallestDelta1 then hctSubtractDelta else smallestDelta1);
                smallestDeltaHct2 =
                  (if flt hctSubtractDelta smallestDelta1 then hctSubtract else smallestDeltaHct1)
            in createKeyColor_loop solveToInt hue chroma startTone (delta + 1)
                 smallestDeltaHct2 smallestDelta2))
      else smallestDeltaHct)"
  by pat_completeness auto
termination
  by (relation "measure (\<lambda>(solveToInt, hue, chroma, startTone, delta, h, d). nat \<lceil>50 - delta\<rceil>)")
     (auto simp: Let_def, linarith)

declare createKeyColor_loop.simps [simp del]

definition createKeyColor :: "solver \<Rightarrow> float64 \<Rightarrow> float64 \<Rightarrow> Hct" where
  "createKeyColor solveToInt hue chroma =
     (let startTone = 50;
          smallestDeltaHct = NewHct solveToInt hue chroma (Fin startTone);
          smallestDelta = math_Abs (fsub (GetChroma smallestDeltaHct) chroma)
      in createKeyColor_loop solveToInt hue chroma startTone 1 smallestDeltaHct smallestDelta)"

definition NewTonalPaletteFromHueChroma :: "solver \<Rightarrow> float64 \<Rightarrow> float64 \<Rightarrow> TonalPalette" where
  "NewTonalPaletteFromHueChroma solveToInt hue chroma =
     \<lparr>tp_cache = Some Map.empty, tp_keyColor = createKeyColor solveToInt hue chroma,
      tp_hue = hue, tp_chroma = chroma\<rparr>"

definition NewTonalPaletteFromHct :: "solver \<Rightarrow> Hct \<Rightarrow> TonalPalette" where
  "NewTonalPaletteFromHct solveToInt h =
     NewTonalPaletteFromHueChroma solveToInt (GetHue h) (GetChroma h)"

definition NewTonalPaletteFromInt :: "solver \<Rightarrow> int \<Rightarrow> TonalPalette option" where
  "NewTonalPaletteFromInt solveToInt argb =
     (case NewHctFromInt argb of
        None \<Rightarrow> None
      | Some h \<Rightarrow> Some (NewTonalPaletteFromHct solveToInt h))"

text \<open>\<^verbatim>\<open>Tone\<close> returns the colour and the palette with its updated cache; \<open>None\<close> is the panic
  of a write to the nil map.\<close>

definition Tone :: "solver \<Rightarrow> TonalPalette \<Rightarrow> int \<Rightarrow> (int \<times> TonalPalette) option" where
  "Tone solveToInt tp tone =
     (case tp_cache tp of
        None \<Rightarrow> None
      | Some cache \<Rightarrow>
          (case cache tone of
             Some color \<Rightarrow> Some (color, tp)
           | None \<Rightarrow>
               (let color = ToInt (NewHct solveToInt (tp_hue tp) (tp_chroma tp) (Fin (of_int tone)))
                in Some (color, tp\<lparr>tp_cache := Some (cache(tone \<mapsto> color))\<rparr>))))"

definition TonalPalette_GetHct :: "solver \<Rightarrow> TonalPalette \<Rightarrow> float64 \<Rightarrow> Hct" where
  "TonalPalette_GetHct solveToInt tp tone = NewHct solveToInt (tp_hue tp) (tp_chroma tp) tone"

definition GetKeyColor :: "TonalPalette \<Rightarrow> Hct" where
  "GetKeyColor tp = tp_keyColor tp"

text \<open>A sequence of \<^verbatim>\<open>Tone\<close> calls made on one palette, each on the palette the call before
  left behind.\<close>

fun Tone_calls :: "solver \<Rightarrow> TonalPalette \<Rightarrow> int list \<Rightarrow> TonalPalette option" where
  "Tone_calls solveToInt tp [] = Some tp"
| "Tone_calls solveToInt tp (tone # tones) =
     (case Tone solveToInt tp tone of
        None \<Rightarrow> None
      | Some (color, tp') \<Rightarrow> Tone_calls solveToInt tp' tones)"

section \<open>Package mathUtils: degrees, on binary floating-point numbers\<close>

text \<open>
  For \<^verbatim>\<open>SanitizeDegreesDouble\<close> a finite \<^verbatim>\<open>float64\<close> is a pair of a mantissa and an exponent,
  standing for \<open>mantissa * 2 ^ exponent\<close>, with a mantissa of at most 53 bits.
  \<^verbatim>\<open>math.Mod\<close> is exact (its result is always representable); the sum is rounded to the
  nearest number of 53 bits, ties to the even mantissa, as IEEE 754 addition is. The
  operands here are below 720 in size, so nothing overflows.
\<close>

datatype binary64 = B64 (mantissa: int) (exponent: int)

definition is_binary64 :: "binary64 \<Rightarrow> bool" where
  "is_binary64 x = (\<bar>mantissa x\<bar> < 2 ^ 53 \<and> - 1074 \<le> exponent x \<and> exponent x \<le> 971)"

definition valof :: "binary64 \<Rightarrow> real" where
  "valof x =
     (if 0 \<le> exponent x then of_int (mantissa x) * 2 ^ nat (exponent x)
      else of_int (mantissa x) / 2 ^ nat (- exponent x))"

definition round_to_binary64 :: "int \<Rightarrow> int \<Rightarrow> binary64" where
  "round_to_binary64 m e =
     (let n = bitlen \<bar>m\<bar> in
      if n \<le> 53 then B64 m e
      else
        (let sh = nat (n - 53);
             q = \<bar>m\<bar> div 2 ^ sh;
             r = \<bar>m\<bar> mod 2 ^ sh;
             half = 2 ^ (sh - 1);
             q' = (if half < r \<or> (r = half \<and> odd q) then q + 1 else q)
         in if q' = 2 ^ 53 then B64 (sgn m * 2 ^ 52) (e + int sh + 1)
            else B64 (sgn m * q') (e + int sh)))"

definition binary64_add :: "binary64 \<Rightarrow> binary64 \<Rightarrow> binary64" where
  "binary64_add x y =
     (let e = min (exponent x) (exponent y);
          mx = mantissa x * 2 ^ nat (exponent x - e);
          my = mantissa y * 2 ^ nat (exponent y - e)
      in round_to_binary64 (mx + my) e)"

text \<open>\<^verbatim>\<open>math.Mod(x, y)\<close> for finite \<open>x\<close> and finite non-zero \<open>y\<close>: the remainder of the division
  truncated towards zero, with the sign of \<open>x\<close>.\<close>

definition math_Mod :: "binary64 \<Rightarrow> binary64 \<Rightarrow> binary64" where
  "math_Mod x y =
     (let e = min (exponent x) (exponent y);
          mx = mantissa x * 2 ^ nat (exponent x - e);
          my = mantissa y * 2 ^ nat (exponent y - e)
      in B64 (sgn mx * (\<bar>mx\<bar> mod \<bar>my\<bar>)) e)"

definition SanitizeDegreesDouble :: "binary64 \<Rightarrow> binary64" where
  "SanitizeDegreesDouble degrees0 =
     (let degrees = math_Mod degrees0 (B64 45 3) in
      if mantissa degrees < 0 then binary64_add degrees (B64 45 3) else degrees)"

section \<open>The HCT solver\<close>

text \<open>
  Modelled from the spec: the file that defines \<^verbatim>\<open>solveToInt\<close> is not among the sources. The
  specification gives its contract: if the chroma is below \<open>1e-6\<close>, or the tone is at most
  \<open>1e-6\<close> or at least \<open>100 - 1e-6\<close>, the result is the grey \<open>ArgbFromLstar tone\<close>;
  otherwise a search over the gamut decides, which the specification describes only by its
  goal. That search is the parameter \<open>search\<close>, and so is the result on a tone that is not
  finite.
\<close>

definition solveToInt :: "solver \<Rightarrow> float64 \<Rightarrow> float64 \<Rightarrow> float64 \<Rightarrow> int" where
  "solveToInt search hue chroma tone =
     (case tone of
        Fin t \<Rightarrow>
          (if flt chroma (Fin (1 / 10 ^ 6)) \<or> t \<le> 1 / 10 ^ 6 \<or> 100 - 1 / 10 ^ 6 \<le> t
           then ArgbFromLstar t
           else search hue chroma tone)
      | _ \<Rightarrow> search hue chroma tone)"

section \<open>Properties of the colour-space primitives\<close>

subsection \<open>Cube roots and the companding exponent\<close>


lemma cube_root_of_cube: "0 < (x::real) \<Longrightarrow> (x ^ 3) powr (1 / 3) = x"
proof -
  assume h: "0 < x"
  have "x ^ 3 = x powr 3" using h by simp
  then have "(x ^ 3) powr (1 / 3) = (x powr 3) powr (1 / 3)" by (rule arg_cong)
  also have "\<dots> = x powr (3 * (1 / 3))" by (rule powr_powr)
  also have "\<dots> = x" using h by simp
  finally show ?thesis .
qed



lemma math_Round_of_int: "math_Round (real_of_int v) = v"
  by (simp add: math_Round_def)

lemma powr_inverse_exponent: "0 < (x::real) \<Longrightarrow> (x powr (24 / 10)) powr (1 / (24 / 10)) = x"
  by (simp add: powr_powr)

lemma threshold_power: "(31308 / 10 ^ 7 :: real) ^ 5 < (25025 / 269025) ^ 12"
  by (simp add: power_divide divide_simps)

lemma powr_above_threshold:
  assumes "(25025 / 269025 :: real) \<le> x"
  shows "31308 / 10 ^ 7 < x powr (24 / 10)"
proof (rule ccontr)
  assume "\<not> 31308 / 10 ^ 7 < x powr (24 / 10)"
  then have le: "x powr (24 / 10) \<le> 31308 / 10 ^ 7" by simp
  have xpos: "0 < x" using assms by simp
  have "(x powr (24 / 10)) ^ 5 \<le> (31308 / 10 ^ 7) ^ 5"
    by (rule power_mono[OF le]) simp
  moreover have "(x powr (24 / 10)) ^ 5 = x ^ 12"
  proof -
    have "(x powr (24 / 10)) ^ 5 = (x powr (24 / 10)) powr 5" by simp
    also have "\<dots> = x powr 12" by (simp add: powr_powr)
    also have "\<dots> = x ^ 12" using xpos by simp
    finally show ?thesis .
  qed
  moreover have "(25025 / 269025 :: real) ^ 12 \<le> x ^ 12"
    by (rule power_mono[OF assms]) simp
  ultimately show False using threshold_power by linarith
qed

lemma Linearized_low:
  "0 \<le> v \<Longrightarrow> v \<le> 10 \<Longrightarrow> Linearized v = real_of_int v / 255 / 12.92 * 100"
  by (simp add: Linearized_def Let_def)

lemma Linearized_high:
  "11 \<le> v \<Longrightarrow> Linearized v = ((real_of_int v / 255 + 0.055) / 1.055) powr 2.4 * 100"
proof -
  assume "11 \<le> v"
  then have "11 \<le> real_of_int v" by simp
  then have "\<not> real_of_int v / 255 \<le> 0.040449936" by simp
  then show ?thesis by (simp add: Linearized_def Let_def math_Pow_def)
qed

subsection \<open>Companding round trip\<close>

text \<open>
  Claim C3. For every integer \<open>v\<close> with \<open>0 \<le> v \<le> 255\<close>, delinearising the linearised
  component gives \<open>v\<close> back: the two thresholds \<open>0.040449936\<close> and \<open>0.0031308\<close> select
  matching branches, the exponents \<open>2.4\<close> and \<open>1/2.4\<close> cancel, and rounding and clamping
  leave the integer unchanged.
\<close>

theorem Delinearized_Linearized_roundtrip:
  "0 \<le> v \<Longrightarrow> v \<le> 255 \<Longrightarrow> Delinearized (Linearized v) = v"
proof (cases "v \<le> 10")
  case True
  assume v: "0 \<le> v" "v \<le> 255"
  have "real_of_int v \<le> 10" using True by simp
  then have small: "real_of_int v / 255 / 12.92 \<le> 0.0031308" by simp
  have "Delinearized (Linearized v) = ClampInt 0 255 (math_Round (real_of_int v))"
    using small by (simp add: Linearized_low[OF v(1) True] Delinearized_def Let_def)
  then show ?thesis using v by (simp add: math_Round_of_int ClampInt_def)
next
  case False
  assume v: "0 \<le> v" "v \<le> 255"
  from False have v11: "11 \<le> v" by simp
  define x where "x = (real_of_int v / 255 + 0.055) / 1.055"
  have "11 \<le> real_of_int v" using v11 by simp
  then have xlow: "25025 / 269025 \<le> x" unfolding x_def by simp
  then have xpos: "0 < x" by simp
  have big: "\<not> x powr (24 / 10) \<le> 0.0031308"
    using powr_above_threshold[OF xlow] by simp
  have lin: "Linearized v = x powr (24 / 10) * 100"
    by (simp add: Linearized_high[OF v11] x_def)
  have "Delinearized (Linearized v) =
        ClampInt 0 255 (math_Round ((1.055 * (x powr (24 / 10)) powr (1 / (24 / 10)) - 0.055) * 255))"
    using big by (simp add: lin Delinearized_def Let_def math_Pow_def)
  also have "(1.055 * (x powr (24 / 10)) powr (1 / (24 / 10)) - 0.055) * 255 = real_of_int v"
    unfolding powr_inverse_exponent[OF xpos] by (simp add: x_def field_simps)
  finally show ?thesis using v by (simp add: math_Round_of_int ClampInt_def)
qed

theorem Delinearized_Linearized_roundtrip_witness:
  "(0::int) \<le> 200 \<and> (200::int) \<le> 255 \<and> Delinearized (Linearized 200) = 200"
  using Delinearized_Linearized_roundtrip [of 200] by simp

subsection \<open>Round trip between L* and Y\<close>



subsection \<open>Range of L*\<close>

lemma byte_bounds: "0 \<le> (x::int) AND 255 \<and> x AND 255 \<le> 255"
  by (simp add: AND_upper2')

lemma Linearized_bounds:
  assumes "0 \<le> c" "c \<le> 255"
  shows "0 \<le> Linearized c \<and> Linearized c \<le> 100"
proof (cases "c \<le> 10")
  case True
  have "0 \<le> real_of_int c" "real_of_int c \<le> 10" using assms True by simp_all
  then show ?thesis unfolding Linearized_low[OF assms(1) True] by simp
next
  case False
  then have c11: "11 \<le> c" by simp
  define x where "x = (real_of_int c / 255 + 0.055) / 1.055"
  have "0 \<le> real_of_int c" "real_of_int c \<le> 255" using assms by simp_all
  then have "0 \<le> x" "x \<le> 1" unfolding x_def by simp_all
  then have "x powr 2.4 \<le> 1" by (simp add: powr_le1)
  moreover have "0 \<le> x powr 2.4" by simp
  ultimately show ?thesis unfolding Linearized_high[OF c11] x_def by simp
qed

lemma XyzFromArgb_value:
  "XyzFromArgb argb = Some
     [Linearized (RedFromArgb argb) * 0.41233895 + Linearized (GreenFromArgb argb) * 0.35762064
        + Linearized (BlueFromArgb argb) * 0.18051042,
      Linearized (RedFromArgb argb) * 0.2126 + Linearized (GreenFromArgb argb) * 0.7152
        + Linearized (BlueFromArgb argb) * 0.0722,
      Linearized (RedFromArgb argb) * 0.01932141 + Linearized (GreenFromArgb argb) * 0.11916382
        + Linearized (BlueFromArgb argb) * 0.95034478]"
  by (simp add: XyzFromArgb_def srgbToXyz_def Let_def)

lemma Lstar_of_y_bounds:
  assumes "0 \<le> (y::real)" "y \<le> 1"
  shows "0 \<le> (if y \<le> 216 / 24389 then 24389 / 27 * y else 116 * y powr (1 / 3) - 16)
       \<and> (if y \<le> 216 / 24389 then 24389 / 27 * y else 116 * y powr (1 / 3) - 16) \<le> 100"
proof (cases "y \<le> 216 / 24389")
  case True
  then show ?thesis using assms by simp
next
  case False
  then have big: "(6 / 29) ^ 3 < y" by (simp add: power3_eq_cube)
  have "((6 / 29 :: real) ^ 3) powr (1 / 3) < y powr (1 / 3)"
    by (rule powr_less_mono2) (use big in simp_all)
  then have lo: "6 / 29 < y powr (1 / 3)"
    using cube_root_of_cube [of "6 / 29"] by simp
  have hi: "y powr (1 / 3) \<le> 1" using assms by (simp add: powr_le1)
  show ?thesis using False lo hi by simp
qed

lemma LstarFromArgb_value:
  "LstarFromArgb x =
     Some (let y = (Linearized (RedFromArgb x) * 0.2126 + Linearized (GreenFromArgb x) * 0.7152
                     + Linearized (BlueFromArgb x) * 0.0722) / 100
           in if y \<le> 216 / 24389 then 24389 / 27 * y else 116 * y powr (1 / 3) - 16)"
  unfolding LstarFromArgb_def XyzFromArgb_value by (simp add: Let_def math_Pow_def)

lemma LstarFromArgb_in_range: "\<exists>l. LstarFromArgb x = Some l \<and> 0 \<le> l \<and> l \<le> 100"
proof -
  define r where "r = Linearized (RedFromArgb x)"
  define g where "g = Linearized (GreenFromArgb x)"
  define b where "b = Linearized (BlueFromArgb x)"
  have rb: "0 \<le> r \<and> r \<le> 100" unfolding r_def RedFromArgb_def
    using byte_bounds by (intro Linearized_bounds) auto
  have gb: "0 \<le> g \<and> g \<le> 100" unfolding g_def GreenFromArgb_def
    using byte_bounds by (intro Linearized_bounds) auto
  have bb: "0 \<le> b \<and> b \<le> 100" unfolding b_def BlueFromArgb_def
    using byte_bounds by (intro Linearized_bounds) auto
  define y where "y = (r * 0.2126 + g * 0.7152 + b * 0.0722) / 100"
  have y: "0 \<le> y" "y \<le> 1" unfolding y_def using rb gb bb by simp_all
  have "LstarFromArgb x =
      Some (if y \<le> 216 / 24389 then 24389 / 27 * y else 116 * y powr (1 / 3) - 16)"
    unfolding LstarFromArgb_value by (simp add: Let_def y_def r_def g_def b_def)
  then show ?thesis using Lstar_of_y_bounds[OF y] by simp
qed

text \<open>
  Claim C5. For every ARGB value \<open>x\<close>, whatever its alpha byte and channel bytes,
  \<open>LstarFromArgb x\<close> returns a value (no index is out of range) and that value lies in
  the closed interval \<open>[0, 100]\<close>.
\<close>

theorem LstarFromArgb_range: "\<exists>l. LstarFromArgb x = Some l \<and> 0 \<le> l \<and> l \<le> 100"
  by (rule LstarFromArgb_in_range)

section \<open>Properties of CAM16 and HCT\<close>

subsection \<open>Values that are not finite stay so\<close>

lemma not_finite_fmul_left: "\<not> is_finite a \<Longrightarrow> \<not> is_finite (fmul a b)"
  by (cases a; cases b) (simp_all add: of_sign_def)

lemma not_finite_fmul_right: "\<not> is_finite b \<Longrightarrow> \<not> is_finite (fmul a b)"
  by (cases a; cases b) (simp_all add: of_sign_def)

lemma not_finite_fdiv_left: "\<not> is_finite a \<Longrightarrow> \<not> is_finite (fdiv a b)"
  by (cases a; cases b) (simp_all add: of_sign_def)

lemma not_finite_math_Sqrt: "\<not> is_finite a \<Longrightarrow> \<not> is_finite (math_Sqrt a)"
  by (cases a) simp_all

lemma flt_irrefl: "\<not> flt d d"
  by (cases d) simp_all

subsection \<open>The default viewing conditions exist\<close>

lemma MakeViewingConditions_RgbD:
  "\<exists>vc d0 d1 d2. MakeViewingConditions [w0, w1, w2] la bg su di = Some vc \<and> vc_RgbD vc = [d0, d1, d2]"
  unfolding MakeViewingConditions_def list.case Let_def
  by (intro exI conjI, rule refl) (simp only: ViewingConditions.select_convs)

lemma DefaultViewingConditions_defined:
  "\<exists>vc d0 d1 d2. DefaultViewingConditions = Some vc \<and> vc_RgbD vc = [d0, d1, d2]"
  unfolding DefaultViewingConditions_def DefaultViewingConditionsWithBackgroundLstar_def whitePointD65_def
  by (rule MakeViewingConditions_RgbD)

lemma Cam16FromXyzInViewingConditions_defined:
  "vc_RgbD vc = [d0, d1, d2] \<Longrightarrow> \<exists>cam. Cam16FromXyzInViewingConditions x y z vc = Some cam"
  unfolding Cam16FromXyzInViewingConditions_def by (simp only: list.case Let_def) blast

lemma Cam16FromInt_defined: "\<exists>cam. Cam16FromInt argb = Some cam"
proof -
  obtain vc d0 d1 d2 where vc: "DefaultViewingConditions = Some vc" "vc_RgbD vc = [d0, d1, d2]"
    using DefaultViewingConditions_defined by blast
  show ?thesis
    unfolding Cam16FromInt_def Cam16FromIntInViewingConditions_def Let_def vc(1) option.case
    by (rule Cam16FromXyzInViewingConditions_defined[OF vc(2)])
qed

subsection \<open>The alpha byte\<close>

lemma low24_red:
  "drop_bit 16 ((x::int) AND 0x00ff0000) = drop_bit 16 (x AND 0xFFFFFF AND 0x00ff0000)"
  by (simp add: and.assoc)

lemma low24_green:
  "drop_bit 8 ((x::int) AND 0x0000ff00) = drop_bit 8 (x AND 0xFFFFFF AND 0x0000ff00)"
  by (simp add: and.assoc)

lemma low24_blue: "(x::int) AND 0x000000ff = x AND 0xFFFFFF AND 0x000000ff"
  by (simp add: and.assoc)

lemma RedFromArgb_low24: "RedFromArgb x = RedFromArgb (x AND 0xFFFFFF)"
proof -
  have "drop_bit 16 x AND mask 8 = drop_bit 16 (x AND mask 24) AND mask 8"
    by (simp flip: take_bit_eq_mask add: drop_bit_take_bit)
  then show ?thesis by (simp add: RedFromArgb_def mask_eq_exp_minus_1)
qed

lemma GreenFromArgb_low24: "GreenFromArgb x = GreenFromArgb (x AND 0xFFFFFF)"
proof -
  have "drop_bit 8 x AND mask 8 = drop_bit 8 (x AND mask 24) AND mask 8"
    by (simp flip: take_bit_eq_mask add: drop_bit_take_bit)
  then show ?thesis by (simp add: GreenFromArgb_def mask_eq_exp_minus_1)
qed

lemma BlueFromArgb_low24: "BlueFromArgb x = BlueFromArgb (x AND 0xFFFFFF)"
  by (simp add: BlueFromArgb_def and.assoc)

lemma Cam16FromIntInViewingConditions_low24:
  "Cam16FromIntInViewingConditions x vc = Cam16FromIntInViewingConditions (x AND 0xFFFFFF) vc"
  unfolding Cam16FromIntInViewingConditions_def
  by (simp only: low24_red [of x] low24_green [of x] low24_blue [of x]) (simp add: and.assoc)

lemma LstarFromArgb_low24: "LstarFromArgb x = LstarFromArgb (x AND 0xFFFFFF)"
  unfolding LstarFromArgb_value
  using RedFromArgb_low24 [of x] GreenFromArgb_low24 [of x] BlueFromArgb_low24 [of x] by simp

lemma NewHctFromInt_value:
  "\<exists>cam lstar. Cam16FromInt x = Some cam \<and> LstarFromArgb x = Some lstar \<and>
     NewHctFromInt x = Some \<lparr>hct_hue = cam_hue cam, hct_chroma = cam_chroma cam,
                            hct_tone = Fin lstar, hct_argb = x\<rparr>"
proof -
  obtain cam where cam: "Cam16FromInt x = Some cam" using Cam16FromInt_defined by blast
  obtain lstar where l: "LstarFromArgb x = Some lstar" using LstarFromArgb_value by blast
  show ?thesis by (simp add: NewHctFromInt_def setInternalState_def cam l)
qed

text \<open>
  Claim C10. The CAM16 forward transform of an ARGB integer does not read the alpha byte:
  two ARGB values with the same low 24 bits give the same CAM16 value under any viewing
  conditions. \<open>NewHctFromInt\<close> therefore builds, for both, HCT values with the same hue,
  chroma and tone, and only the stored ARGB, which \<open>ToInt\<close> returns unchanged, differs.
\<close>

theorem alpha_byte_ignored:
  assumes "x AND 0xFFFFFF = y AND 0xFFFFFF"
  shows "Cam16FromIntInViewingConditions x vc = Cam16FromIntInViewingConditions y vc \<and>
         (\<exists>hx hy. NewHctFromInt x = Some hx \<and> NewHctFromInt y = Some hy \<and>
            GetHue hx = GetHue hy \<and> GetChroma hx = GetChroma hy \<and> GetTone hx = GetTone hy \<and>
            ToInt hx = x \<and> ToInt hy = y)"
proof -
  have cam: "Cam16FromIntInViewingConditions x v = Cam16FromIntInViewingConditions y v" for v
    using Cam16FromIntInViewingConditions_low24 [of x v]
          Cam16FromIntInViewingConditions_low24 [of y v] assms by simp
  have cam_default: "Cam16FromInt x = Cam16FromInt y"
    by (simp only: Cam16FromInt_def cam)
  have lstar: "LstarFromArgb x = LstarFromArgb y"
    using LstarFromArgb_low24 [of x] LstarFromArgb_low24 [of y] assms by simp
  obtain cx lx where x: "Cam16FromInt x = Some cx" "LstarFromArgb x = Some lx"
    "NewHctFromInt x = Some \<lparr>hct_hue = cam_hue cx, hct_chroma = cam_chroma cx,
                             hct_tone = Fin lx, hct_argb = x\<rparr>"
    using NewHctFromInt_value [of x] by blast
  obtain cy ly where y: "Cam16FromInt y = Some cy" "LstarFromArgb y = Some ly"
    "NewHctFromInt y = Some \<lparr>hct_hue = cam_hue cy, hct_chroma = cam_chroma cy,
                             hct_tone = Fin ly, hct_argb = y\<rparr>"
    using NewHctFromInt_value [of y] by blast
  have "cx = cy" "lx = ly" using x(1,2) y(1,2) cam_default lstar by simp_all
  then show ?thesis
    using cam x(3) y(3) by (simp add: GetHue_def GetChroma_def GetTone_def ToInt_def)
qed

theorem alpha_byte_ignored_witness:
  "(0xFF0000FF::int) AND 0xFFFFFF = 0x000000FF AND 0xFFFFFF \<and>
   Cam16FromIntInViewingConditions 0xFF0000FF
      \<lparr>vc_Aw = Fin 30, vc_Nbb = Fin 1, vc_Ncb = Fin 1, vc_C = Fin 0.69, vc_Nc = Fin 1,
       vc_N = Fin 0.2, vc_RgbD = [Fin 1, Fin 1, Fin 1], vc_Fl = Fin 0.4, vc_FlRoot = Fin 0.8,
       vc_Z = Fin 1.9\<rparr> =
   Cam16FromIntInViewingConditions 0x000000FF
      \<lparr>vc_Aw = Fin 30, vc_Nbb = Fin 1, vc_Ncb = Fin 1, vc_C = Fin 0.69, vc_Nc = Fin 1,
       vc_N = Fin 0.2, vc_RgbD = [Fin 1, Fin 1, Fin 1], vc_Fl = Fin 0.4, vc_FlRoot = Fin 0.8,
       vc_Z = Fin 1.9\<rparr> \<and>
   (\<exists>hx hy. NewHctFromInt 0xFF0000FF = Some hx \<and> NewHctFromInt 0x000000FF = Some hy \<and>
      GetHue hx = GetHue hy \<and> GetChroma hx = GetChroma hy \<and> GetTone hx = GetTone hy \<and>
      ToInt hx = 0xFF0000FF \<and> ToInt hy = 0x000000FF)"
proof -
  have h: "(0xFF0000FF::int) AND 0xFFFFFF = 0x000000FF AND 0xFFFFFF" by simp
  show ?thesis using h alpha_byte_ignored [OF h] by blast
qed

subsection \<open>Zero lightness in \<^verbatim>\<open>Cam16FromJch\<close>\<close>

lemma alpha_at_zero_lightness:
  "0 < c \<Longrightarrow> fdiv (Fin c) (math_Sqrt (fdiv (Fin 0) (Fin 100))) = PInf"
  by (simp add: of_sign_def)

lemma cam_s_FromJch:
  "cam_s (cam16FromJchInViewingConditions j c h vc) =
     fmul (Fin 50) (math_Sqrt (fdiv (fmul (fdiv c (math_Sqrt (fdiv j (Fin 100)))) (vc_C vc))
                                   (fadd (vc_Aw vc) (Fin 4))))"
  by (simp add: cam16FromJchInViewingConditions_def Let_def)

lemma cam_s_not_finite:
  "0 < c \<Longrightarrow> \<not> is_finite (cam_s (cam16FromJchInViewingConditions (Fin 0) (Fin c) (Fin h) vc))"
proof -
  assume c: "0 < c"
  have "\<not> is_finite (fdiv (Fin c) (math_Sqrt (fdiv (Fin 0) (Fin 100))))"
    using alpha_at_zero_lightness[OF c] by simp
  then have "\<not> is_finite (fmul (fdiv (Fin c) (math_Sqrt (fdiv (Fin 0) (Fin 100)))) (vc_C vc))"
    by (rule not_finite_fmul_left)
  then have "\<not> is_finite (fdiv (fmul (fdiv (Fin c) (math_Sqrt (fdiv (Fin 0) (Fin 100)))) (vc_C vc))
                               (fadd (vc_Aw vc) (Fin 4)))"
    by (rule not_finite_fdiv_left)
  then have "\<not> is_finite (math_Sqrt (fdiv (fmul (fdiv (Fin c) (math_Sqrt (fdiv (Fin 0) (Fin 100))))
                                                (vc_C vc))
                                          (fadd (vc_Aw vc) (Fin 4))))"
    by (rule not_finite_math_Sqrt)
  then show ?thesis unfolding cam_s_FromJch by (rule not_finite_fmul_right)
qed

text \<open>
  Claim C9. \<open>cam16FromJchInViewingConditions\<close> divides the chroma by \<open>sqrt (j / 100)\<close>
  without a guard, where the inverse transform \<open>XyzInViewingConditions\<close> puts \<open>alpha = 0\<close>
  when the chroma or \<open>J\<close> is zero. So for every \<open>c > 0\<close> and every hue, the public
  \<open>Cam16FromJch 0 c h\<close> returns a CAM16 value whose quotient \<open>alpha\<close> is \<open>+Inf\<close> and whose
  saturation \<open>s\<close> is not a finite number, while the inverse transform reads \<open>alpha = 0\<close>
  from that same value.
\<close>

theorem Cam16FromJch_zero_lightness:
  "0 < c \<Longrightarrow>
     fdiv (Fin c) (math_Sqrt (fdiv (Fin 0) (Fin 100))) = PInf \<and>
     (\<exists>cam. Cam16FromJch (Fin 0) (Fin c) (Fin h) = Some cam \<and> \<not> is_finite (cam_s cam) \<and>
             XyzInViewingConditions_alpha cam = Fin 0)"
proof -
  assume c: "0 < c"
  obtain vc d0 d1 d2 where vc: "DefaultViewingConditions = Some vc" "vc_RgbD vc = [d0, d1, d2]"
    using DefaultViewingConditions_defined by blast
  let ?cam = "cam16FromJchInViewingConditions (Fin 0) (Fin c) (Fin h) vc"
  have 1: "Cam16FromJch (Fin 0) (Fin c) (Fin h) = Some ?cam"
    by (simp add: Cam16FromJch_def vc(1))
  have 2: "\<not> is_finite (cam_s ?cam)" by (rule cam_s_not_finite[OF c])
  have "cam_j ?cam = Fin 0" by (simp add: cam16FromJchInViewingConditions_def Let_def)
  then have 3: "XyzInViewingConditions_alpha ?cam = Fin 0"
    by (simp add: XyzInViewingConditions_alpha_def feq_def)
  show ?thesis using alpha_at_zero_lightness[OF c] 1 2 3 by blast
qed

theorem Cam16FromJch_zero_lightness_witness:
  "(0::real) < 10 \<and>
     fdiv (Fin 10) (math_Sqrt (fdiv (Fin 0) (Fin 100))) = PInf \<and>
     (\<exists>cam. Cam16FromJch (Fin 0) (Fin 10) (Fin 30) = Some cam \<and> \<not> is_finite (cam_s cam) \<and>
             XyzInViewingConditions_alpha cam = Fin 0)"
proof -
  have h: "(0::real) < 10" by simp
  show ?thesis using h Cam16FromJch_zero_lightness [OF h, of 30] by blast
qed

section \<open>Properties of the tonal palette\<close>

subsection \<open>The key colour\<close>

lemma createKeyColor_loop_fixed:
  "GetChroma H = chroma \<Longrightarrow> d = math_Abs (fsub chroma chroma) \<Longrightarrow>
   createKeyColor_loop solve hue chroma st delta H d = H"
proof (induction "nat \<lceil>50 - delta\<rceil>" arbitrary: delta)
  case 0
  then have "\<not> delta < 50" by linarith
  then show ?case by (subst createKeyColor_loop.simps) simp
next
  case (Suc n)
  then have lt: "delta < 50" by linarith
  have n: "n = nat \<lceil>50 - (delta + 1)\<rceil>" using Suc(2) by linarith
  have ih: "createKeyColor_loop solve hue chroma st (delta + 1) H d = H"
    using Suc(1)[OF n Suc(3) Suc(4)] .
  show ?case
    by (subst createKeyColor_loop.simps)
       (simp add: lt Let_def NewHct_def GetChroma_def Suc(4)[symmetric] flt_irrefl ih)
qed

text \<open>
  Claim C6 says that the key colour is chosen by the chroma the solver realised at the tones
  50, 51, 49, \<dots> What the code computes: \<open>NewHct\<close> stores the chroma it was asked for, so
  \<open>GetChroma\<close> of every candidate is the requested chroma, the first comparison of the loop
  finds the rounded values equal (or, for NaN, no candidate is ever closer), and for every
  solver, hue and chroma the key colour is the HCT built at tone 50, with the requested chroma
  in its chroma field.
\<close>

theorem createKeyColor_is_start_tone:
  "createKeyColor solve hue chroma = NewHct solve hue chroma (Fin 50) \<and>
   GetKeyColor (NewTonalPaletteFromHueChroma solve hue chroma) = NewHct solve hue chroma (Fin 50) \<and>
   GetTone (createKeyColor solve hue chroma) = Fin 50 \<and>
   GetChroma (createKeyColor solve hue chroma) = chroma"
proof -
  have "createKeyColor solve hue chroma = NewHct solve hue chroma (Fin 50)"
    unfolding createKeyColor_def Let_def
    by (rule createKeyColor_loop_fixed) (simp_all add: NewHct_def GetChroma_def)
  then show ?thesis
    by (simp add: GetKeyColor_def NewTonalPaletteFromHueChroma_def NewHct_def GetTone_def
        GetChroma_def)
qed

subsection \<open>The cache\<close>

lemma Tone_miss:
  "tp_cache p = Some m \<Longrightarrow> m n = None \<Longrightarrow>
   Tone solve p n =
     Some (ToInt (NewHct solve (tp_hue p) (tp_chroma p) (Fin (of_int n))),
           p\<lparr>tp_cache := Some (m(n \<mapsto> ToInt (NewHct solve (tp_hue p) (tp_chroma p) (Fin (of_int n)))))\<rparr>)"
  by (simp add: Tone_def Let_def)

lemma Tone_hit: "tp_cache p = Some m \<Longrightarrow> m n = Some v \<Longrightarrow> Tone solve p n = Some (v, p)"
  by (simp add: Tone_def)

lemma Tone_grows:
  assumes "tp_cache p = Some m"
  shows "\<exists>c m'. Tone solve p n = Some (c, p\<lparr>tp_cache := Some m'\<rparr>) \<and> m \<subseteq>\<^sub>m m' \<and> m' n = Some c"
proof (cases "m n")
  case None
  let ?c = "ToInt (NewHct solve (tp_hue p) (tp_chroma p) (Fin (of_int n)))"
  have "m \<subseteq>\<^sub>m m(n \<mapsto> ?c)" using None by (auto simp: map_le_def)
  then show ?thesis using Tone_miss[OF assms None, where solve = solve] by fastforce
next
  case (Some v)
  have "p\<lparr>tp_cache := Some m\<rparr> = p" using assms by simp
  then have "Tone solve p n = Some (v, p\<lparr>tp_cache := Some m\<rparr>)"
    using Tone_hit[OF assms Some, where solve = solve] by simp
  moreover have "m \<subseteq>\<^sub>m m" by simp
  ultimately show ?thesis using Some by blast
qed

lemma Tone_again:
  assumes "tp_cache p = Some m" and "Tone solve p n = Some (c, p')"
  shows "Tone solve p' n = Some (c, p')"
proof -
  obtain c' m' where t: "Tone solve p n = Some (c', p\<lparr>tp_cache := Some m'\<rparr>)" "m' n = Some c'"
    using Tone_grows[OF assms(1)] by blast
  then have "c' = c" "p' = p\<lparr>tp_cache := Some m'\<rparr>" using assms(2) by simp_all
  then show ?thesis using t(2) by (simp add: Tone_def)
qed

lemma Tone_calls_grow:
  "tp_cache p = Some m \<Longrightarrow>
   \<exists>m'. Tone_calls solve p ns = Some (p\<lparr>tp_cache := Some m'\<rparr>) \<and> m \<subseteq>\<^sub>m m'"
proof (induction ns arbitrary: p m)
  case Nil
  have "p\<lparr>tp_cache := Some m\<rparr> = p" using Nil by simp
  then show ?case by (metis Tone_calls.simps(1) map_le_refl)
next
  case (Cons n ns)
  obtain c m1 where t: "Tone solve p n = Some (c, p\<lparr>tp_cache := Some m1\<rparr>)" "m \<subseteq>\<^sub>m m1"
    using Tone_grows[OF Cons.prems] by blast
  have "tp_cache (p\<lparr>tp_cache := Some m1\<rparr>) = Some m1" by simp
  from Cons.IH[OF this] obtain m2 where
    r: "Tone_calls solve (p\<lparr>tp_cache := Some m1\<rparr>) ns = Some (p\<lparr>tp_cache := Some m1, tp_cache := Some m2\<rparr>)"
       "m1 \<subseteq>\<^sub>m m2"
    by blast
  have "Tone_calls solve p (n # ns) = Some (p\<lparr>tp_cache := Some m2\<rparr>)"
    using t(1) r(1) by simp
  moreover have "m \<subseteq>\<^sub>m m2" using t(2) r(2) by (rule map_le_trans)
  ultimately show ?case by blast
qed

text \<open>
  Claim C7. On a palette with an allocated cache \<open>m\<close>: a call \<open>Tone n\<close> on a tone that is
  not cached computes \<open>NewHct hue chroma (float64 n)\<close>, returns its ARGB and stores it under
  \<open>n\<close>, changing nothing else; a call on a cached tone returns the stored value and leaves
  the palette as it is; a second call returns what the first returned; and after any
  sequence of calls the palette differs from the first one only in its cache, which
  extends the old cache (every old entry is still there with its old value).
\<close>

theorem Tone_cache_grow_only:
  assumes "tp_cache p = Some m"
  shows "(m n = None \<longrightarrow>
            Tone solve p n =
              Some (ToInt (NewHct solve (tp_hue p) (tp_chroma p) (Fin (of_int n))),
                    p\<lparr>tp_cache :=
                        Some (m(n \<mapsto> ToInt (NewHct solve (tp_hue p) (tp_chroma p) (Fin (of_int n)))))\<rparr>))
       \<and> (\<forall>v. m n = Some v \<longrightarrow> Tone solve p n = Some (v, p))
       \<and> (\<forall>c p'. Tone solve p n = Some (c, p') \<longrightarrow> Tone solve p' n = Some (c, p'))
       \<and> (\<exists>m'. Tone_calls solve p ns = Some (p\<lparr>tp_cache := Some m'\<rparr>) \<and> m \<subseteq>\<^sub>m m')"
  using Tone_miss[OF assms, where n = n and solve = solve]
        Tone_hit[OF assms, where n = n and solve = solve]
        Tone_again[OF assms, where n = n and solve = solve]
        Tone_calls_grow[OF assms, where ns = ns and solve = solve]
  by blast

theorem Tone_cache_grow_only_witness:
  "tp_cache (NewTonalPaletteFromHueChroma (\<lambda>h c t. 0xFF000000) (Fin 25) (Fin 84)) = Some Map.empty \<and>
   (\<exists>c p1 p2. Tone (\<lambda>h c t. 0xFF000000)
                 (NewTonalPaletteFromHueChroma (\<lambda>h c t. 0xFF000000) (Fin 25) (Fin 84)) 40 = Some (c, p1)
      \<and> c = 0xFF000000
      \<and> Tone (\<lambda>h c t. 0xFF000000) p1 40 = Some (c, p1)
      \<and> Tone_calls (\<lambda>h c t. 0xFF000000)
           (NewTonalPaletteFromHueChroma (\<lambda>h c t. 0xFF000000) (Fin 25) (Fin 84)) [40, 50, 40] = Some p2
      \<and> tp_hue p2 = Fin 25 \<and> tp_chroma p2 = Fin 84)"
proof -
  let ?s = "\<lambda>(h::float64) (c::float64) (t::float64). (0xFF000000::int)"
  let ?p = "NewTonalPaletteFromHueChroma ?s (Fin 25) (Fin 84)"
  have h: "tp_cache ?p = Some Map.empty" by (simp add: NewTonalPaletteFromHueChroma_def)
  have e: "Map.empty (40::int) = (None :: int option)" by simp
  from Tone_cache_grow_only [OF h, where n = 40 and solve = ?s and ns = "[40, 50, 40]"] e
  obtain m' where
    1: "Tone ?s ?p 40 =
          Some (ToInt (NewHct ?s (tp_hue ?p) (tp_chroma ?p) (Fin (of_int 40))),
                ?p\<lparr>tp_cache :=
                    Some (Map.empty(40 \<mapsto> ToInt (NewHct ?s (tp_hue ?p) (tp_chroma ?p) (Fin (of_int 40)))))\<rparr>)"
    and 2: "\<forall>c p'. Tone ?s ?p 40 = Some (c, p') \<longrightarrow> Tone ?s p' 40 = Some (c, p')"
    and 3: "Tone_calls ?s ?p [40, 50, 40] = Some (?p\<lparr>tp_cache := Some m'\<rparr>)"
    by blast
  have c: "ToInt (NewHct ?s (tp_hue ?p) (tp_chroma ?p) (Fin (of_int 40))) = 0xFF000000"
    by (simp add: ToInt_def NewHct_def)
  have hc: "tp_hue (?p\<lparr>tp_cache := Some m'\<rparr>) = Fin 25" "tp_chroma (?p\<lparr>tp_cache := Some m'\<rparr>) = Fin 84"
    by (simp_all add: NewTonalPaletteFromHueChroma_def)
  show ?thesis using h 1 2 3 c hc by metis
qed

section \<open>Brightness and colourfulness in \<^verbatim>\<open>Cam16FromJch\<close>\<close>

subsection \<open>The luminance-level factor of the default viewing conditions\<close>

lemma unit_interval_mult:
  fixes a b :: real
  shows "0 < a \<Longrightarrow> a < 1 \<Longrightarrow> 0 < b \<Longrightarrow> b < 1 \<Longrightarrow> 0 < a * b \<and> a * b < 1"
  using mult_strict_mono[of a 1 b 1] by simp

lemma Fl_bounds:
  fixes la :: real
  assumes la: "0 < la" "la \<le> 20"
  defines "k \<equiv> 1 / (5 * la + 1)"
  defines "F \<equiv> k * k * k * k * la + 0.1 * (1 - k * k * k * k) * (1 - k * k * k * k) * root 3 (5 * la)"
  shows "0 < F \<and> F < 1"
proof -
  have k: "0 < k" "k < 1" using la by (simp_all add: k_def)
  have kk: "0 < k * k" "k * k < 1" using unit_interval_mult[OF k k] by simp_all
  have k3: "0 < k * k * k" "k * k * k < 1" using unit_interval_mult[OF kk k] by simp_all
  have k4: "0 < k * k * k * k" "k * k * k * k < 1" using unit_interval_mult[OF k3 k] by simp_all
  have "k * k * k * k \<le> k"
    using mult_right_mono[of "k * k * k" 1 k] k k3 by simp
  then have "k * k * k * k * la \<le> k * la" using la by (simp add: mult_right_mono)
  also have "k * la < 1 / 5" using la by (simp add: k_def field_simps)
  finally have t1: "k * k * k * k * la < 1 / 5" .
  have t1pos: "0 < k * k * k * k * la" using k4 la by simp
  have r0: "0 \<le> root 3 (5 * la)" using la by (simp add: real_root_ge_zero)
  have "root 3 (5 * la) < root 3 (5 ^ 3)"
    by (rule real_root_less_mono) (use la in simp_all)
  then have r5: "root 3 (5 * la) < 5" by (simp add: real_root_power_cancel)
  define u where "u = 1 - k * k * k * k"
  have u: "0 < u" "u < 1" using k4 by (simp_all add: u_def)
  have uu: "0 \<le> u * u" "u * u \<le> 1" using unit_interval_mult[OF u u] by simp_all
  have "u * u * root 3 (5 * la) \<le> 1 * root 3 (5 * la)"
    by (rule mult_right_mono) (use uu r0 in simp_all)
  then have t2: "u * u * root 3 (5 * la) < 5" using r5 by simp
  have t2pos: "0 \<le> u * u * root 3 (5 * la)" using uu r0 by simp
  have F: "F = k * k * k * k * la + 0.1 * (u * u * root 3 (5 * la))"
    by (simp add: F_def u_def)
  show ?thesis unfolding F using t1 t1pos t2 t2pos by simp
qed

lemma default_luminance: "0 < (200 / pi * YFromLstar 50) / 100 \<and> (200 / pi * YFromLstar 50) / 100 \<le> 20"
proof -
  have y: "YFromLstar 50 = (33 / 58) ^ 3 * 100"
    by (simp add: YFromLstar_def math_Pow_def)
  have "(200 / pi * YFromLstar 50) / 100 = 2 * ((33 / 58) ^ 3 * 100) / pi"
    unfolding y by simp
  moreover have "0 < 2 * ((33 / 58 :: real) ^ 3 * 100) / pi" by simp
  moreover have "2 * ((33 / 58 :: real) ^ 3 * 100) / pi \<le> 20"
  proof -
    have "2 * ((33 / 58 :: real) ^ 3 * 100) \<le> 20 * 2" by (simp add: power3_eq_cube)
    also have "\<dots> \<le> 20 * pi" using pi_ge_two by simp
    finally show ?thesis by (simp add: field_simps)
  qed
  ultimately show ?thesis by simp
qed

lemma MakeViewingConditions_Fl:
  assumes la: "0 < la" "la \<le> 20"
  shows "\<exists>vc F. MakeViewingConditions [w0, w1, w2] la bg su di = Some vc \<and>
           vc_Fl vc = Fin F \<and> vc_FlRoot vc = Fin (F powr (1 / 4)) \<and> 0 < F \<and> F < 1"
proof -
  define k where "k = 1 / (5 * la + 1)"
  define F where "F = k * k * k * k * la + 0.1 * (1 - k * k * k * k) * (1 - k * k * k * k) * root 3 (5 * la)"
  have ne: "5 * la + 1 \<noteq> 0" using la by simp
  have kf: "fdiv (Fin 1) (Fin (5 * la + 1)) = Fin k" using ne by (simp add: k_def)
  have fl: "fadd (fmul (fmul (fmul (fmul (fdiv (Fin 1) (Fin (5 * la + 1))) (fdiv (Fin 1) (Fin (5 * la + 1))))
                                 (fdiv (Fin 1) (Fin (5 * la + 1)))) (fdiv (Fin 1) (Fin (5 * la + 1)))) (Fin la))
             (fmul (fmul (fmul (Fin 0.1)
                      (fsub (Fin 1) (fmul (fmul (fmul (fdiv (Fin 1) (Fin (5 * la + 1))) (fdiv (Fin 1) (Fin (5 * la + 1))))
                                 (fdiv (Fin 1) (Fin (5 * la + 1)))) (fdiv (Fin 1) (Fin (5 * la + 1))))))
                      (fsub (Fin 1) (fmul (fmul (fmul (fdiv (Fin 1) (Fin (5 * la + 1))) (fdiv (Fin 1) (Fin (5 * la + 1))))
                                 (fdiv (Fin 1) (Fin (5 * la + 1)))) (fdiv (Fin 1) (Fin (5 * la + 1))))))
                   (Fin (root 3 (5 * la)))) = Fin F"
    unfolding kf by (simp add: F_def fsub_def)
  have b: "0 < F \<and> F < 1" using Fl_bounds[OF la] by (simp add: F_def k_def)
  then have root: "fpow (Fin F) (Fin 0.25) = Fin (F powr (1 / 4))" by simp
  show ?thesis
    unfolding MakeViewingConditions_def list.case Let_def
    apply (intro exI conjI)
        apply (rule refl)
       apply (simp only: ViewingConditions.select_convs fl)
      apply (simp only: ViewingConditions.select_convs fl root)
    using b apply simp_all
    done
qed

lemma DefaultViewingConditions_Fl:
  "\<exists>vc F. DefaultViewingConditions = Some vc \<and>
     vc_Fl vc = Fin F \<and> vc_FlRoot vc = Fin (F powr (1 / 4)) \<and> 0 < F \<and> F < 1"
proof -
  have la: "0 < (200 / pi * YFromLstar 50) / 100" "(200 / pi * YFromLstar 50) / 100 \<le> 20"
    using default_luminance by simp_all
  show ?thesis
    unfolding DefaultViewingConditions_def DefaultViewingConditionsWithBackgroundLstar_def
      whitePointD65_def
    by (rule MakeViewingConditions_Fl[OF la])
qed

lemma sqrt_is_not_fourth_root:
  fixes F :: real
  assumes "0 < F" "F < 1"
  shows "sqrt F \<noteq> F powr (1 / 4)"
proof
  assume "sqrt F = F powr (1 / 4)"
  then have "F powr (1 / 2) = F powr (1 / 4)" using assms by (simp add: powr_half_sqrt)
  then have "(1 / 2 :: real) = 1 / 4" using assms by (simp add: powr_inj)
  then show False by simp
qed

subsection \<open>The factor used by \<^verbatim>\<open>cam16FromJchInViewingConditions\<close>\<close>

text \<open>
  Claim C2 says that \<open>cam16FromJchInViewingConditions\<close> computes \<open>Q\<close> and \<open>M\<close> with the factor
  \<open>FlRoot = Fl^(1/4)\<close>, as the forward transform does. What the code computes: both are
  built with \<open>sqrt Fl\<close>, for all arguments. Under the default viewing conditions \<open>Fl\<close> lies
  strictly between 0 and 1, where the square root and the fourth root differ, so the
  colourfulness returned by the public \<open>Cam16FromJch 50 10 30\<close> is not \<open>C * FlRoot\<close>.
\<close>

theorem Cam16FromJch_uses_sqrt_Fl:
  "cam_q (cam16FromJchInViewingConditions j c h vc) =
     fmul (fmul (fmul (fdiv (Fin 4) (vc_C vc)) (math_Sqrt (fdiv j (Fin 100))))
                (fadd (vc_Aw vc) (Fin 4)))
          (math_Sqrt (vc_Fl vc)) \<and>
   cam_m (cam16FromJchInViewingConditions j c h vc) = fmul c (math_Sqrt (vc_Fl vc)) \<and>
   (\<exists>cam dvc. Cam16FromJch (Fin 50) (Fin 10) (Fin 30) = Some cam \<and>
        DefaultViewingConditions = Some dvc \<and>
        cam_m cam \<noteq> fmul (Fin 10) (vc_FlRoot dvc))"
proof -
  obtain dvc F where d: "DefaultViewingConditions = Some dvc" "vc_Fl dvc = Fin F"
      "vc_FlRoot dvc = Fin (F powr (1 / 4))" "0 < F" "F < 1"
    using DefaultViewingConditions_Fl by blast
  let ?cam = "cam16FromJchInViewingConditions (Fin 50) (Fin 10) (Fin 30) dvc"
  have 1: "Cam16FromJch (Fin 50) (Fin 10) (Fin 30) = Some ?cam"
    by (simp add: Cam16FromJch_def d(1))
  have "cam_m ?cam = Fin (10 * sqrt F)"
    using d(4) by (simp add: cam16FromJchInViewingConditions_def Let_def d(2))
  moreover have "fmul (Fin 10) (vc_FlRoot dvc) = Fin (10 * F powr (1 / 4))"
    by (simp add: d(3))
  ultimately have 2: "cam_m ?cam \<noteq> fmul (Fin 10) (vc_FlRoot dvc)"
    using sqrt_is_not_fourth_root[OF d(4) d(5)] by simp
  show ?thesis
    using 1 2 d(1) by (auto simp: cam16FromJchInViewingConditions_def Let_def)
qed

section \<open>Sanitising degrees\<close>

lemma SanitizeDegreesDouble_tiny_negative:
  "SanitizeDegreesDouble (B64 (- 1) (- 70)) = B64 (45 * 2 ^ 47) (- 44)"
  by code_simp

text \<open>
  Claim C8 says that \<open>SanitizeDegreesDouble\<close> returns a value in \<open>[0, 360)\<close>, 360 excluded,
  for every finite \<^verbatim>\<open>float64\<close>. What the code computes at \<open>d = - 2^-70\<close>, a finite
  \<^verbatim>\<open>float64\<close>: \<^verbatim>\<open>math.Mod\<close> returns \<open>d\<close> itself, \<open>d\<close> is negative, and the sum \<open>d + 360.0\<close>
  rounds to \<open>360.0\<close>, which is returned.
\<close>

theorem SanitizeDegreesDouble_returns_360:
  "is_binary64 (B64 (- 1) (- 70)) \<and>
   valof (B64 (- 1) (- 70)) = - 1 / 2 ^ 70 \<and>
   math_Mod (B64 (- 1) (- 70)) (B64 45 3) = B64 (- 1) (- 70) \<and>
   is_binary64 (SanitizeDegreesDouble (B64 (- 1) (- 70))) \<and>
   valof (SanitizeDegreesDouble (B64 (- 1) (- 70))) = 360"
  unfolding SanitizeDegreesDouble_tiny_negative
  by (simp add: is_binary64_def valof_def math_Mod_def Let_def)

section \<open>Properties of the solver's grey path\<close>
















end
